theory Spec2Isabelle
  imports Complex_Main "HOL-Library.Log_Nat"
begin

section \<open>The external store\<close>

text \<open>
  The routes of \<^verbatim>\<open>server.js\<close> (and of the older route set, the second source file) keep no
  state of their own: every handler reads and writes the tables of a hosted database through
  a client whose calls return a pair \<^verbatim>\<open>{ data, error }\<close> and do not throw. The tables are
  modelled as lists of rows in insertion order. Identifiers are kept in their text form, the
  form in which they arrive in a URL path (\<^verbatim>\<open>req.params.id\<close>) and travel in JSON.
\<close>

type_synonym ident = string

record test_row =
  t_id :: ident
  t_title :: string
  t_description :: string
  t_question_count :: nat
  t_total_points :: int
  t_created_by :: "ident option"
  t_is_published :: bool
  t_average_rating :: "rat option"
  t_review_count :: "nat option"
  t_updated_at :: "string option"

record question_row =
  q_test_id :: ident
  q_question_text :: string
  q_options :: "string list"
  q_correct_answer :: string
  q_points :: int
  q_order_index :: nat

record test_tag_row =
  tt_test_id :: ident
  tt_tag_id :: ident

record tag_row =
  tg_id :: ident
  tg_name :: string
  tg_is_active :: bool

record review_row =
  rv_test_id :: ident
  rv_rating :: int
  rv_comment :: "string option"
  rv_user_id :: "ident option"
  rv_is_approved :: bool

record result_row =
  rs_test_id :: ident
  rs_user_name :: "string option"
  rs_answers :: string
  rs_score :: int
  rs_total_questions :: "int option"
  rs_percentage :: "int option"
  rs_max_score :: "int option"
  rs_completed_at :: "string option"

record user_row =
  u_id :: ident
  u_email :: string
  u_password_hash :: string
  u_role :: string
  u_last_login :: "string option"

record log_row =
  l_user_id :: "ident option"
  l_action_type :: string
  l_description :: string

record store =
  tests :: "test_row list"
  questions :: "question_row list"
  test_tags :: "test_tag_row list"
  tags :: "tag_row list"
  test_reviews :: "review_row list"
  results :: "result_row list"
  users :: "user_row list"
  admin_logs :: "log_row list"

text \<open>
  What the handler cannot decide is gathered in the environment of one request: whether a
  call to the store fails (\<open>fault e op tbl = Some m\<close>: the call on table \<open>tbl\<close> returns an
  error with message \<open>m\<close> and changes nothing), the clock read by
  \<^verbatim>\<open>new Date().toISOString()\<close>, and the identifier the database gives to a test row
  inserted during the request. Within one handler every pair of an operation and a table is
  used by at most one call, so the pair names the call.
\<close>

datatype table = Tests | Questions | TestTags | TestReviews | Results | Users | AdminLogs

datatype operation = Select | Insert | Update | Delete

record env =
  fault :: "operation \<Rightarrow> table \<Rightarrow> string option"
  now :: string
  new_id :: ident

text \<open>
  A handler fails either with the error a store call returned or with the \<^verbatim>\<open>TypeError\<close> the
  JavaScript engine throws when a property of \<^verbatim>\<open>undefined\<close> is read; either is caught at the
  handler boundary and answered with status 500.
\<close>

datatype failure = StoreError string | TypeError

datatype 'a response = Json200 'a | Json401 string | Json500 failure

text \<open>\<^verbatim>\<open>.single()\<close>: the row when the query yields exactly one, an error otherwise.\<close>

definition single_row_message :: string where
  "single_row_message = ''JSON object requested, multiple (or no) rows returned''"

definition single :: "'r list \<Rightarrow> string + 'r" where
  "single rows = (case rows of [r] \<Rightarrow> Inr r | _ \<Rightarrow> Inl single_row_message)"

text \<open>A store call under the environment: the error of a failing call, the result otherwise.\<close>

definition store_call :: "env \<Rightarrow> operation \<Rightarrow> table \<Rightarrow> (string + 'a) \<Rightarrow> string + 'a" where
  "store_call e opn tbl r = (case fault e opn tbl of Some m \<Rightarrow> Inl m | None \<Rightarrow> r)"

text \<open>A write under the environment: the store is changed only when the call succeeds.\<close>

definition store_write :: "env \<Rightarrow> operation \<Rightarrow> table \<Rightarrow> store \<Rightarrow> store \<Rightarrow> store" where
  "store_write e opn tbl s s' = (case fault e opn tbl of Some m \<Rightarrow> s | None \<Rightarrow> s')"


section \<open>Administrator login\<close>

record login_body =
  lb_email :: string
  lb_password :: string

text \<open>The fixed failure text of the login route (Russian for ``wrong credentials''), as the
  bytes of its UTF-8 encoding.\<close>

definition login_failure_message :: string where
  "login_failure_message =
     [CHR 0xD0, CHR 0x9D, CHR 0xD0, CHR 0xB5, CHR 0xD0, CHR 0xB2, CHR 0xD0, CHR 0xB5,
      CHR 0xD1, CHR 0x80, CHR 0xD0, CHR 0xBD, CHR 0xD1, CHR 0x8B, CHR 0xD0, CHR 0xB5,
      CHR 0x20, CHR 0xD1, CHR 0x83, CHR 0xD1, CHR 0x87, CHR 0xD0, CHR 0xB5, CHR 0xD1,
      CHR 0x82, CHR 0xD0, CHR 0xBD, CHR 0xD1, CHR 0x8B, CHR 0xD0, CHR 0xB5, CHR 0x20,
      CHR 0xD0, CHR 0xB4, CHR 0xD0, CHR 0xB0, CHR 0xD0, CHR 0xBD, CHR 0xD0, CHR 0xBD,
      CHR 0xD1, CHR 0x8B, CHR 0xD0, CHR 0xB5]"

definition is_admin_with :: "string \<Rightarrow> string \<Rightarrow> user_row \<Rightarrow> bool" where
  "is_admin_with email password u =
     (u_email u = email \<and> u_password_hash u = password \<and> u_role u = ''admin'')"

definition set_last_login :: "ident \<Rightarrow> string \<Rightarrow> user_row \<Rightarrow> user_row" where
  "set_last_login uid stamp u = (if u_id u = uid then u\<lparr>u_last_login := Some stamp\<rparr> else u)"

text \<open>
  \<^verbatim>\<open>POST /api/admin/login\<close>. The query filters on email, password and role at once and asks
  for a single row; \<^verbatim>\<open>if (error || !user)\<close> answers 401 for a failed call as for no match.
  The result of the \<^verbatim>\<open>last_login\<close> update is not looked at.
\<close>

definition admin_login :: "env \<Rightarrow> login_body \<Rightarrow> store \<Rightarrow> user_row response \<times> store" where
  "admin_login e b s =
     (case store_call e Select Users
             (single (filter (is_admin_with (lb_email b) (lb_password b)) (users s))) of
        Inl m \<Rightarrow> (Json401 login_failure_message, s)
      | Inr user \<Rightarrow>
          (Json200 user,
           store_write e Update Users s
             (s\<lparr>users := map (set_last_login (u_id user) (now e)) (users s)\<rparr>)))"


section \<open>Creating, replacing and deleting a test\<close>

text \<open>
  The request body of \<^verbatim>\<open>POST /api/tests\<close> and \<^verbatim>\<open>PUT /api/tests/:id\<close>. A field that JSON
  may leave out and whose absence the handler can observe is an option: the list of
  questions (\<^verbatim>\<open>questions.length\<close> throws on \<^verbatim>\<open>undefined\<close>), the tags, the acting user, the
  points of a question, and its correct answer (\<^verbatim>\<open>q.correct_answer.toString()\<close> throws on
  \<^verbatim>\<open>undefined\<close>). A correct answer is held as the text \<^verbatim>\<open>toString()\<close> yields.
\<close>

record question_payload =
  qp_question_text :: string
  qp_options :: "string list"
  qp_correct_answer :: "string option"
  qp_points :: "int option"

record tag_payload =
  tp_id :: ident

record test_body =
  tb_title :: string
  tb_description :: string
  tb_questions :: "question_payload list option"
  tb_tags :: "tag_payload list option"
  tb_user :: "ident option"

text \<open>\<^verbatim>\<open>q.points || 1\<close>: the points, or 1 when they are missing or falsy (the number 0).\<close>

definition points_or_one :: "int option \<Rightarrow> int" where
  "points_or_one p = (case p of None \<Rightarrow> 1 | Some v \<Rightarrow> if v = 0 then 1 else v)"

text \<open>\<^verbatim>\<open>questions.reduce((sum, q) => sum + (q.points || 1), 0)\<close>\<close>

definition total_points :: "question_payload list \<Rightarrow> int" where
  "total_points qs = foldl (\<lambda>sum q. sum + points_or_one (qp_points q)) 0 qs"

text \<open>
  \<^verbatim>\<open>questions.map((q, index) => ({ test_id, ..., order_index: index }))\<close>. The callback throws
  at a question without a correct answer, and then the whole \<^verbatim>\<open>map\<close> yields nothing.
\<close>

definition question_with_test_id :: "ident \<Rightarrow> nat \<times> question_payload \<Rightarrow> question_row option" where
  "question_with_test_id tid iq =
     (case qp_correct_answer (snd iq) of
        None \<Rightarrow> None
      | Some answer \<Rightarrow>
          Some \<lparr>q_test_id = tid,
                q_question_text = qp_question_text (snd iq),
                q_options = qp_options (snd iq),
                q_correct_answer = answer,
                q_points = points_or_one (qp_points (snd iq)),
                q_order_index = fst iq\<rparr>)"

definition questionsWithTestId :: "ident \<Rightarrow> question_payload list \<Rightarrow> question_row list option" where
  "questionsWithTestId tid qs = those (map (question_with_test_id tid) (enumerate 0 qs))"

text \<open>
  \<^verbatim>\<open>if (tags && tags.length > 0) { insert the associations; if (tagsError) throw tagsError }\<close>
\<close>

definition insert_test_tags :: "env \<Rightarrow> ident \<Rightarrow> tag_payload list option \<Rightarrow> store \<Rightarrow> failure + store" where
  "insert_test_tags e tid tgs s =
     (case tgs of
        None \<Rightarrow> Inr s
      | Some ts \<Rightarrow>
          if 0 < length ts then
            (case fault e Insert TestTags of
               Some m \<Rightarrow> Inl (StoreError m)
             | None \<Rightarrow>
                 Inr (s\<lparr>test_tags := test_tags s
                          @ map (\<lambda>tag. \<lparr>tt_test_id = tid, tt_tag_id = tp_id tag\<rparr>) ts\<rparr>))
          else Inr s)"

text \<open>The audit insert: awaited, its result dropped.\<close>

definition insert_log :: "env \<Rightarrow> log_row \<Rightarrow> store \<Rightarrow> store" where
  "insert_log e entry s = store_write e Insert AdminLogs s (s\<lparr>admin_logs := admin_logs s @ [entry]\<rparr>)"

text \<open>The prefixes of the three audit descriptions (Russian, UTF-8 bytes), each ending in
  a colon and a blank.\<close>

definition created_prefix :: string where
  "created_prefix =
     [CHR 0xD0, CHR 0xA1, CHR 0xD0, CHR 0xBE, CHR 0xD0, CHR 0xB7, CHR 0xD0, CHR 0xB4,
      CHR 0xD0, CHR 0xB0, CHR 0xD0, CHR 0xBD, CHR 0x20, CHR 0xD1, CHR 0x82, CHR 0xD0,
      CHR 0xB5, CHR 0xD1, CHR 0x81, CHR 0xD1, CHR 0x82, CHR 0x3A, CHR 0x20]"

definition updated_prefix :: string where
  "updated_prefix =
     [CHR 0xD0, CHR 0x9E, CHR 0xD0, CHR 0xB1, CHR 0xD0, CHR 0xBD, CHR 0xD0, CHR 0xBE,
      CHR 0xD0, CHR 0xB2, CHR 0xD0, CHR 0xBB, CHR 0xD0, CHR 0xB5, CHR 0xD0, CHR 0xBD,
      CHR 0x20, CHR 0xD1, CHR 0x82, CHR 0xD0, CHR 0xB5, CHR 0xD1, CHR 0x81, CHR 0xD1,
      CHR 0x82, CHR 0x3A, CHR 0x20]"


text \<open>
  \<^verbatim>\<open>POST /api/tests\<close>: insert the test row, then the question rows, then the tag
  associations, then the audit entry. Average rating and review count are not among the
  inserted columns (\<open>None\<close>: left to the database).
\<close>

definition new_test_row :: "env \<Rightarrow> test_body \<Rightarrow> question_payload list \<Rightarrow> test_row" where
  "new_test_row e b qs =
     \<lparr>t_id = new_id e,
      t_title = tb_title b,
      t_description = tb_description b,
      t_question_count = length qs,
      t_total_points = total_points qs,
      t_created_by = tb_user b,
      t_is_published = True,
      t_average_rating = None,
      t_review_count = None,
      t_updated_at = None\<rparr>"

definition post_tests :: "env \<Rightarrow> test_body \<Rightarrow> store \<Rightarrow> test_row response \<times> store" where
  "post_tests e b s =
     (case tb_questions b of
        None \<Rightarrow> (Json500 TypeError, s)
      | Some qs \<Rightarrow>
          (case store_call e Insert Tests (Inr (new_test_row e b qs)) of
             Inl m \<Rightarrow> (Json500 (StoreError m), s)
           | Inr test \<Rightarrow>
               (let s1 = s\<lparr>tests := tests s @ [test]\<rparr> in
                case questionsWithTestId (t_id test) qs of
                  None \<Rightarrow> (Json500 TypeError, s1)
                | Some rows \<Rightarrow>
                    (case fault e Insert Questions of
                       Some m \<Rightarrow> (Json500 (StoreError m), s1)
                     | None \<Rightarrow>
                         (let s2 = s1\<lparr>questions := questions s1 @ rows\<rparr> in
                          case insert_test_tags e (t_id test) (tb_tags b) s2 of
                            Inl f \<Rightarrow> (Json500 f, s2)
                          | Inr s3 \<Rightarrow>
                              (Json200 test,
                               insert_log e
                                 \<lparr>l_user_id = tb_user b,
                                  l_action_type = ''CREATE_TEST'',
                                  l_description = created_prefix @ tb_title b\<rparr> s3))))))"

text \<open>
  \<^verbatim>\<open>PUT /api/tests/:id\<close>: update the row (a single row must come back), delete the old
  questions (result dropped), insert the new ones, delete the old tag associations (result
  dropped), insert the new ones, write the audit entry.
\<close>

definition update_test_row :: "env \<Rightarrow> ident \<Rightarrow> test_body \<Rightarrow> question_payload list \<Rightarrow> test_row \<Rightarrow> test_row" where
  "update_test_row e tid b qs t =
     (if t_id t = tid
      then t\<lparr>t_title := tb_title b,
             t_description := tb_description b,
             t_question_count := length qs,
             t_total_points := total_points qs,
             t_updated_at := Some (now e)\<rparr>
      else t)"

definition put_tests :: "env \<Rightarrow> ident \<Rightarrow> test_body \<Rightarrow> store \<Rightarrow> test_row response \<times> store" where
  "put_tests e tid b s =
     (case tb_questions b of
        None \<Rightarrow> (Json500 TypeError, s)
      | Some qs \<Rightarrow>
          (case fault e Update Tests of
             Some m \<Rightarrow> (Json500 (StoreError m), s)
           | None \<Rightarrow>
               (let s1 = s\<lparr>tests := map (update_test_row e tid b qs) (tests s)\<rparr> in
                case single (filter (\<lambda>t. t_id t = tid) (tests s1)) of
                  Inl m \<Rightarrow> (Json500 (StoreError m), s1)
                | Inr test \<Rightarrow>
                    (let s2 = store_write e Delete Questions s1
                                (s1\<lparr>questions := filter (\<lambda>q. q_test_id q \<noteq> tid) (questions s1)\<rparr>) in
                     case questionsWithTestId tid qs of
                       None \<Rightarrow> (Json500 TypeError, s2)
                     | Some rows \<Rightarrow>
                         (case fault e Insert Questions of
                            Some m \<Rightarrow> (Json500 (StoreError m), s2)
                          | None \<Rightarrow>
                              (let s3 = s2\<lparr>questions := questions s2 @ rows\<rparr>;
                                   s4 = store_write e Delete TestTags s3
                                          (s3\<lparr>test_tags := filter (\<lambda>r. tt_test_id r \<noteq> tid) (test_tags s3)\<rparr>) in
                               case insert_test_tags e tid (tb_tags b) s4 of
                                 Inl f \<Rightarrow> (Json500 f, s4)
                               | Inr s5 \<Rightarrow>
                                   (Json200 test,
                                    insert_log e
                                      \<lparr>l_user_id = tb_user b,
                                       l_action_type = ''UPDATE_TEST'',
                                       l_description = updated_prefix @ tb_title b\<rparr> s5)))))))"




section \<open>Reading a test\<close>







section \<open>Results\<close>

record result_body =
  rb_test_id :: ident
  rb_user_name :: "string option"
  rb_answers :: string
  rb_score :: int
  rb_total_questions :: "int option"
  rb_percentage :: "int option"
  rb_max_score :: "int option"

text \<open>\<^verbatim>\<open>user_name || 'Anonymous'\<close>: a missing or empty name becomes the default.\<close>

definition name_or_anonymous :: "string option \<Rightarrow> string" where
  "name_or_anonymous n = (case n of None \<Rightarrow> ''Anonymous'' | Some v \<Rightarrow> if v = [] then ''Anonymous'' else v)"

text \<open>
  \<^verbatim>\<open>POST /api/results\<close> of \<^verbatim>\<open>server.js\<close>: one row is inserted and, read back with
  \<^verbatim>\<open>.select()\<close>, returned as \<^verbatim>\<open>data[0]\<close>.
\<close>

definition new_result_row :: "result_body \<Rightarrow> result_row" where
  "new_result_row b =
     \<lparr>rs_test_id = rb_test_id b,
      rs_user_name = Some (name_or_anonymous (rb_user_name b)),
      rs_answers = rb_answers b,
      rs_score = rb_score b,
      rs_total_questions = rb_total_questions b,
      rs_percentage = rb_percentage b,
      rs_max_score = None,
      rs_completed_at = None\<rparr>"

definition post_results :: "env \<Rightarrow> result_body \<Rightarrow> store \<Rightarrow> result_row response \<times> store" where
  "post_results e b s =
     (case store_call e Insert Results (Inr [new_result_row b]) of
        Inl m \<Rightarrow> (Json500 (StoreError m), s)
      | Inr data \<Rightarrow> (Json200 (hd data), s\<lparr>results := results s @ data\<rparr>))"

text \<open>The same route in the older route set: the name as given, the maximal score, and the
  time of completion.\<close>

definition new_result_row_basic :: "env \<Rightarrow> result_body \<Rightarrow> result_row" where
  "new_result_row_basic e b =
     \<lparr>rs_test_id = rb_test_id b,
      rs_user_name = rb_user_name b,
      rs_answers = rb_answers b,
      rs_score = rb_score b,
      rs_total_questions = None,
      rs_percentage = None,
      rs_max_score = rb_max_score b,
      rs_completed_at = Some (now e)\<rparr>"

definition post_results_basic :: "env \<Rightarrow> result_body \<Rightarrow> store \<Rightarrow> result_row response \<times> store" where
  "post_results_basic e b s =
     (case store_call e Insert Results (Inr [new_result_row_basic e b]) of
        Inl m \<Rightarrow> (Json500 (StoreError m), s)
      | Inr data \<Rightarrow> (Json200 (hd data), s\<lparr>results := results s @ data\<rparr>))"


section \<open>Reviews and the stored rating\<close>

text \<open>
  JavaScript numbers are IEEE 754 doubles. Ratings are integers, and integers below \<open>2^53\<close>
  and their sums are exact, so the sum of the ratings is modelled in \<open>int\<close>. The quotient
  \<^verbatim>\<open>sum / reviews.length\<close> is the double nearest to the rational quotient, ties to the even
  significand: for a positive quotient in the binade \<open>[2^E, 2^(E+1))\<close> the doubles are the
  multiples of \<open>2^(E-52)\<close>. (A quotient of two integers below \<open>2^53\<close> is in the normal
  range of the format.) A double is held as the rational it denotes.
\<close>

definition pow2 :: "int \<Rightarrow> rat" where
  "pow2 k = (if 0 \<le> k then 2 ^ nat k else 1 / 2 ^ nat (- k))"

definition round_half_even :: "rat \<Rightarrow> int" where
  "round_half_even x =
     (let f = \<lfloor>x\<rfloor>; r = x - of_int f in
      if r < 1 / 2 then f else if 1 / 2 < r then f + 1 else if even f then f else f + 1)"

text \<open>The binade of \<open>a / n\<close> for positive \<open>a\<close> and \<open>n\<close>, from the bit lengths of the two.\<close>

definition binade :: "int \<Rightarrow> nat \<Rightarrow> int" where
  "binade a n =
     (let k = bitlen a - bitlen (int n) in
      if pow2 k \<le> of_int a / of_nat n then k else k - 1)"

text \<open>
  \<^verbatim>\<open>a / n\<close> on doubles, for integers \<open>a\<close> and \<open>n\<close>. The handler divides only by the length of
  a list it found non-empty; at \<open>n = 0\<close>, where JavaScript yields \<^verbatim>\<open>NaN\<close> or an infinity, the
  model has no value to give and returns 0.
\<close>

definition js_divide :: "int \<Rightarrow> nat \<Rightarrow> rat" where
  "js_divide a n =
     (if a = 0 \<or> n = 0 then 0
      else
        (let ulp = pow2 (binade \<bar>a\<bar> n - 52);
             m = round_half_even (of_int \<bar>a\<bar> / of_nat n / ulp) in
         if a < 0 then - (of_int m * ulp) else of_int m * ulp))"

text \<open>
  \<^verbatim>\<open>parseFloat(x.toFixed(1))\<close>. \<^verbatim>\<open>toFixed(1)\<close> prints \<open>n / 10\<close> for the integer \<open>n\<close> with
  \<open>n / 10\<close> nearest to the exact value of the double, the larger \<open>n\<close> of two, and the sign
  in front for a negative double. The number read back is held as that decimal.
\<close>

definition to_fixed_1 :: "rat \<Rightarrow> rat" where
  "to_fixed_1 x =
     (if x < 0 then - (of_int \<lfloor>10 * (- x) + 1 / 2\<rfloor> / 10)
      else of_int \<lfloor>10 * x + 1 / 2\<rfloor> / 10)"

record review_body =
  vb_test_id :: ident
  vb_user_name :: "string option"
  vb_rating :: int
  vb_comment :: "string option"

text \<open>The ratings the query of \<^verbatim>\<open>updateTestRating\<close> selects: those of the approved reviews
  of the test.\<close>

definition approved_ratings :: "ident \<Rightarrow> store \<Rightarrow> int list" where
  "approved_ratings tid s =
     map rv_rating (filter (\<lambda>r. rv_test_id r = tid \<and> rv_is_approved r) (test_reviews s))"

definition set_rating :: "ident \<Rightarrow> rat \<Rightarrow> nat \<Rightarrow> test_row \<Rightarrow> test_row" where
  "set_rating tid avg cnt t =
     (if t_id t = tid then t\<lparr>t_average_rating := Some avg, t_review_count := Some cnt\<rparr> else t)"

text \<open>
  \<^verbatim>\<open>updateTestRating(testId)\<close>: \<^verbatim>\<open>if (reviews && reviews.length > 0)\<close> guards the write, so a
  failed query and an empty result both leave the test row alone; the result of the update
  is dropped.
\<close>

definition updateTestRating :: "env \<Rightarrow> ident \<Rightarrow> store \<Rightarrow> store" where
  "updateTestRating e tid s =
     (case store_call e Select TestReviews (Inr (approved_ratings tid s)) of
        Inl m \<Rightarrow> s
      | Inr ratings \<Rightarrow>
          if 0 < length ratings then
            (let average_rating = js_divide (foldl (+) 0 ratings) (length ratings) in
             store_write e Update Tests s
               (s\<lparr>tests := map (set_rating tid (to_fixed_1 average_rating) (length ratings))
                               (tests s)\<rparr>))
          else s)"

text \<open>
  \<^verbatim>\<open>POST /api/reviews\<close>: insert the review with \<^verbatim>\<open>user_id: null\<close> and
  \<^verbatim>\<open>is_approved: true\<close>, then bring the rating of the test up to date.
\<close>

definition new_review_row :: "review_body \<Rightarrow> review_row" where
  "new_review_row b =
     \<lparr>rv_test_id = vb_test_id b,
      rv_rating = vb_rating b,
      rv_comment = vb_comment b,
      rv_user_id = None,
      rv_is_approved = True\<rparr>"

definition post_reviews :: "env \<Rightarrow> review_body \<Rightarrow> store \<Rightarrow> review_row response \<times> store" where
  "post_reviews e b s =
     (case store_call e Insert TestReviews (Inr [new_review_row b]) of
        Inl m \<Rightarrow> (Json500 (StoreError m), s)
      | Inr data \<Rightarrow>
          (Json200 (hd data),
           updateTestRating e (vb_test_id b) (s\<lparr>test_reviews := test_reviews s @ data\<rparr>)))"


section \<open>Concrete stores and requests\<close>

text \<open>
  A small store: one administrator and one ordinary user; the test \<open>''7''\<close> with one
  question and a stored rating of 4.5 from 2 reviews, as left behind by reviews that are no
  longer in the table; and a single review of it that is not approved.
\<close>

definition demo_users :: "user_row list" where
  "demo_users =
     [\<lparr>u_id = ''1'', u_email = ''root@example.org'', u_password_hash = ''s3cret'',
       u_role = ''admin'', u_last_login = None\<rparr>,
      \<lparr>u_id = ''2'', u_email = ''ann@example.org'', u_password_hash = ''pw'',
       u_role = ''user'', u_last_login = None\<rparr>]"

definition demo_test :: test_row where
  "demo_test =
     \<lparr>t_id = ''7'', t_title = ''Capitals'', t_description = ''Cities'', t_question_count = 1,
      t_total_points = 1, t_created_by = Some ''1'', t_is_published = True,
      t_average_rating = Some (9 / 2), t_review_count = Some 2, t_updated_at = None\<rparr>"

definition old_question :: question_row where
  "old_question =
     \<lparr>q_test_id = ''7'', q_question_text = ''Capital of France?'',
      q_options = [''Paris'', ''Rome''], q_correct_answer = ''0'', q_points = 1,
      q_order_index = 0\<rparr>"

definition pending_review :: review_row where
  "pending_review =
     \<lparr>rv_test_id = ''7'', rv_rating = 4, rv_comment = None, rv_user_id = None,
      rv_is_approved = False\<rparr>"

definition demo_store :: store where
  "demo_store =
     \<lparr>tests = [demo_test], questions = [old_question], test_tags = [], tags = [],
      test_reviews = [pending_review], results = [], users = demo_users, admin_logs = []\<rparr>"



text \<open>An environment in which every store call succeeds, and one in which exactly one
  call fails.\<close>

definition quiet :: env where
  "quiet = \<lparr>fault = (\<lambda>opn tbl. None), now = ''2024-01-01T00:00:00.000Z'', new_id = ''8''\<rparr>"

definition failing_at :: "operation \<Rightarrow> table \<Rightarrow> env" where
  "failing_at opn tbl =
     quiet\<lparr>fault := (\<lambda>opn' tbl'. if opn' = opn \<and> tbl' = tbl then Some ''store unavailable''
                                  else None)\<rparr>"

definition demo_questions :: "question_payload list" where
  "demo_questions =
     [\<lparr>qp_question_text = ''2 + 2?'', qp_options = [''3'', ''4''],
       qp_correct_answer = Some ''1'', qp_points = Some 2\<rparr>,
      \<lparr>qp_question_text = ''3 + 3?'', qp_options = [''6'', ''9''],
       qp_correct_answer = Some ''0'', qp_points = None\<rparr>]"

definition demo_body :: test_body where
  "demo_body =
     \<lparr>tb_title = ''Sums'', tb_description = ''Arithmetic'', tb_questions = Some demo_questions,
      tb_tags = None, tb_user = Some ''1''\<rparr>"



definition demo_result :: result_body where
  "demo_result =
     \<lparr>rb_test_id = ''7'', rb_user_name = None, rb_answers = ''[0]'', rb_score = 1,
      rb_total_questions = Some 1, rb_percentage = Some 100, rb_max_score = Some 1\<rparr>"



section \<open>Notions of the specification\<close>



text \<open>An environment with the outcome of the audit insert replaced by \<open>x\<close>.\<close>

definition audit_outcome :: "string option \<Rightarrow> env \<Rightarrow> env" where
  "audit_outcome x e =
     e\<lparr>fault := (\<lambda>opn tbl. if opn = Insert \<and> tbl = AdminLogs then x else fault e opn tbl)\<rparr>"


section \<open>Auxiliary facts\<close>

lemma single_Nil: "single [] = Inl single_row_message"
  by (simp add: single_def)












lemma filter_no_admin:
  assumes "\<not> (\<exists>u \<in> set us. u_email u = em \<and> u_password_hash u = pw \<and> u_role u = ''admin'')"
  shows "filter (is_admin_with em pw) us = []"
  using assms by (auto simp: filter_empty_conv is_admin_with_def)

lemma admin_login_no_match:
  assumes "\<not> (\<exists>u \<in> set (users s). u_email u = lb_email b \<and> u_password_hash u = lb_password b
                  \<and> u_role u = ''admin'')"
  shows "admin_login e b s = (Json401 login_failure_message, s)"
  using filter_no_admin[OF assms]
  by (simp add: admin_login_def store_call_def single_Nil split: option.splits)

lemma test_reviews_updateTestRating: "test_reviews (updateTestRating e tid s) = test_reviews s"
  by (simp add: updateTestRating_def store_call_def store_write_def Let_def split: option.splits)









subsection \<open>The served paths of the three writing routes\<close>

lemma audit_outcome_fault [simp]:
  "fault (audit_outcome x e) Insert AdminLogs = x"
  "tbl \<noteq> AdminLogs \<Longrightarrow> fault (audit_outcome x e) opn tbl = fault e opn tbl"
  "opn \<noteq> Insert \<Longrightarrow> fault (audit_outcome x e) opn tbl = fault e opn tbl"
  "now (audit_outcome x e) = now e" "new_id (audit_outcome x e) = new_id e"
  by (simp_all add: audit_outcome_def)







subsection \<open>Division and rounding of doubles\<close>
















text \<open>
  Two evaluations. The mean \<open>14 / 3\<close> is stored as 4.7. The mean \<open>29 / 20\<close> is the tie 1.45,
  whose nearest double lies below it, so that \<^verbatim>\<open>toFixed(1)\<close> prints 1.4: a nearest
  one-decimal number, though not the one rounding half up would give.
\<close>

lemma to_fixed_1_example: "to_fixed_1 (js_divide 14 3) = 47 / 10"
  by code_simp

lemma to_fixed_1_tie_example: "to_fixed_1 (js_divide 29 20) = 14 / 10"
  by code_simp

subsection \<open>The rating update\<close>





lemma set_rating_id: "t_id (set_rating tid avg cnt t) = t_id t"
  by (simp add: set_rating_def)

lemma set_rating_row:
  assumes "t \<in> set (map (set_rating tid avg cnt) ts)" and "t_id t = tid"
  shows "t_average_rating t = Some avg \<and> t_review_count t = Some cnt"
proof -
  from assms(1) obtain t0 where t0: "t = set_rating tid avg cnt t0" by auto
  with assms(2) have "t_id t0 = tid" by (simp add: set_rating_id)
  with t0 show ?thesis by (simp add: set_rating_def)
qed

section \<open>The claims\<close>

subsection \<open>C1: the stored rating after a review\<close>




subsection \<open>C2: the writing routes are not atomic\<close>

text \<open>
  C2: for the multi-step create-test and update-test operations there is an execution in
  which a step fails after earlier writes have succeeded, the handler answers with status
  500, and what the earlier steps wrote stays in the store. Here the insert of the question
  rows fails. After \<^verbatim>\<open>POST /api/tests\<close> the new test row is in the store, without questions;
  after \<^verbatim>\<open>PUT /api/tests/7\<close> the test row carries the new title and counts and the old
  question row is gone, with no new one in its place.
\<close>

theorem multi_step_writes_not_atomic:
  "post_tests (failing_at Insert Questions) demo_body demo_store
     = (Json500 (StoreError ''store unavailable''),
        demo_store\<lparr>tests := [demo_test, new_test_row quiet demo_body demo_questions]\<rparr>)
   \<and> put_tests (failing_at Insert Questions) ''7'' demo_body demo_store
     = (Json500 (StoreError ''store unavailable''),
        demo_store\<lparr>tests := [update_test_row quiet ''7'' demo_body demo_questions demo_test],
                    questions := []\<rparr>)
   \<and> tests demo_store = [demo_test]
   \<and> questions demo_store = [old_question]
   \<and> update_test_row quiet ''7'' demo_body demo_questions demo_test \<noteq> demo_test"
  by (simp add: post_tests_def put_tests_def failing_at_def quiet_def demo_body_def demo_store_def
        store_call_def store_write_def new_test_row_def update_test_row_def demo_test_def
        questionsWithTestId_def question_with_test_id_def demo_questions_def old_question_def
        single_def enumerate_eq_zip Let_def)

subsection \<open>C3: a failed login tells nothing\<close>

text \<open>
  C3: every \<^verbatim>\<open>POST /api/admin/login\<close> whose email and password match no stored user with
  role \<open>admin\<close> is answered with status 401 and the one fixed body, whichever of email,
  password or role failed to match; so two such requests, one with an email that is in the
  store and one with an email that is not, get the same response. (The environments are
  arbitrary: a failing store call is answered in the same way.)
\<close>

theorem login_mismatch_fixed_401:
  assumes "\<not> (\<exists>u \<in> set (users s1). u_email u = lb_email b1 \<and> u_password_hash u = lb_password b1
                  \<and> u_role u = ''admin'')"
      and "\<not> (\<exists>u \<in> set (users s2). u_email u = lb_email b2 \<and> u_password_hash u = lb_password b2
                  \<and> u_role u = ''admin'')"
  shows "fst (admin_login e1 b1 s1) = Json401 login_failure_message
       \<and> fst (admin_login e2 b2 s2) = fst (admin_login e1 b1 s1)"
  by (simp add: admin_login_no_match[OF assms(1)] admin_login_no_match[OF assms(2)])

text \<open>An administrator's email with a wrong password, and an email nobody has.\<close>

theorem login_mismatch_fixed_401_witness:
  "fst (admin_login quiet \<lparr>lb_email = ''root@example.org'', lb_password = ''guess''\<rparr> demo_store)
     = Json401 login_failure_message
   \<and> fst (admin_login quiet \<lparr>lb_email = ''nobody@example.org'', lb_password = ''guess''\<rparr> demo_store)
     = fst (admin_login quiet \<lparr>lb_email = ''root@example.org'', lb_password = ''guess''\<rparr> demo_store)"
proof -
  have h1: "\<not> (\<exists>u \<in> set (users demo_store).
                 u_email u = lb_email \<lparr>lb_email = ''root@example.org'', lb_password = ''guess''\<rparr>
               \<and> u_password_hash u = lb_password \<lparr>lb_email = ''root@example.org'', lb_password = ''guess''\<rparr>
               \<and> u_role u = ''admin'')"
    by (simp add: demo_store_def demo_users_def)
  have h2: "\<not> (\<exists>u \<in> set (users demo_store).
                 u_email u = lb_email \<lparr>lb_email = ''nobody@example.org'', lb_password = ''guess''\<rparr>
               \<and> u_password_hash u = lb_password \<lparr>lb_email = ''nobody@example.org'', lb_password = ''guess''\<rparr>
               \<and> u_role u = ''admin'')"
    by (simp add: demo_store_def demo_users_def)
  show ?thesis by (rule login_mismatch_fixed_401[OF h1 h2])
qed

subsection \<open>C4: the counts of a created test\<close>




subsection \<open>C5: an update replaces the questions\<close>




subsection \<open>C6: deleting a test that is not there\<close>



subsection \<open>C7: create, then read\<close>



subsection \<open>C8: one result row\<close>

text \<open>
  C8: every \<^verbatim>\<open>POST /api/results\<close> the store accepts inserts exactly one result row and returns
  it; in the version of the route that gives the name a default, a request without
  \<open>user_name\<close> is stored with the name \<open>Anonymous\<close>. Both versions are covered: the route of
  \<^verbatim>\<open>server.js\<close> (with the default) and the older one (the name as given).
\<close>

theorem result_inserted_once:
  assumes "fault e Insert Results = None"
  shows "post_results e b s
           = (Json200 (new_result_row b), s\<lparr>results := results s @ [new_result_row b]\<rparr>)
       \<and> (rb_user_name b = None \<longrightarrow> rs_user_name (new_result_row b) = Some ''Anonymous'')
       \<and> post_results_basic e b s
           = (Json200 (new_result_row_basic e b),
              s\<lparr>results := results s @ [new_result_row_basic e b]\<rparr>)"
  using assms
  by (simp add: post_results_def post_results_basic_def store_call_def name_or_anonymous_def
        new_result_row_def)

theorem result_inserted_once_witness:
  "post_results quiet demo_result demo_store
     = (Json200 (new_result_row demo_result),
        demo_store\<lparr>results := results demo_store @ [new_result_row demo_result]\<rparr>)
   \<and> rb_user_name demo_result = None
   \<and> rs_user_name (new_result_row demo_result) = Some ''Anonymous''
   \<and> post_results_basic quiet demo_result demo_store
     = (Json200 (new_result_row_basic quiet demo_result),
        demo_store\<lparr>results := results demo_store @ [new_result_row_basic quiet demo_result]\<rparr>)"
proof -
  have h: "fault quiet Insert Results = None" by (simp add: quiet_def)
  have anonymous: "rb_user_name demo_result = None" by (simp add: demo_result_def)
  from result_inserted_once[OF h, of demo_result demo_store] anonymous
  show ?thesis by blast
qed

subsection \<open>C9: a review is approved and belongs to nobody\<close>

text \<open>
  C9: for every \<^verbatim>\<open>POST /api/reviews\<close>, whatever the body, the environment and the store, the
  reviews table afterwards is either the earlier one (the store refused the insert) or the
  earlier one followed by the one row the handler built, and that row has \<open>is_approved\<close> true
  and \<open>user_id\<close> null.
\<close>

theorem review_row_approved_unbound:
  "test_reviews (snd (post_reviews e b s))
     = (case fault e Insert TestReviews of
          None \<Rightarrow> test_reviews s @ [new_review_row b]
        | Some m \<Rightarrow> test_reviews s)
   \<and> rv_is_approved (new_review_row b) \<and> rv_user_id (new_review_row b) = None"
  by (simp add: post_reviews_def store_call_def test_reviews_updateTestRating new_review_row_def
           split: option.splits)

subsection \<open>C10: a failed audit insert fails nothing\<close>



end
